theory Spec2Isabelle
  imports Main "HOL-Library.Multiset"
begin

section \<open>Data model\<close>

text \<open>
  The backend is an Express application over a PostgreSQL database. The model follows
  \<^verbatim>\<open>backend/src/routes/users.routes.js\<close>, the project routes
  (\<^verbatim>\<open>routes/projects.routes.js\<close>) and the \<^verbatim>\<open>tenantGuard\<close> middleware.

  A value read from the JSON body of a request is absent (\<open>Undefined\<close>), JSON null
  (\<open>Null\<close>) or a value. The source tells \<open>undefined\<close> from \<open>null\<close> in two
  places: a destructuring default applies to \<open>undefined\<close> only, and API 10 tests
  \<^verbatim>\<open>role !== undefined\<close>. Both become SQL NULL as a query parameter.
\<close>

datatype 'a js = Undefined | Null | Val 'a

fun to_sql :: "'a js \<Rightarrow> 'a option" where
  "to_sql (Val v) = Some v"
| "to_sql Undefined = None"
| "to_sql Null = None"

fun defined :: "'a js \<Rightarrow> bool" where
  "defined Undefined = False"
| "defined Null = True"
| "defined (Val v) = True"

text \<open>
  A destructuring default, \<^verbatim>\<open>const { role = "user" } = req.body\<close>: the default
  replaces \<open>undefined\<close> and nothing else.
\<close>

fun default_to :: "'a \<Rightarrow> 'a js \<Rightarrow> 'a js" where
  "default_to d Undefined = Val d"
| "default_to d Null = Null"
| "default_to d (Val v) = Val v"

text \<open>
  SQL equality in a WHERE clause: a comparison with NULL on either side is not true, so
  \<^verbatim>\<open>tenant_id = $1\<close> selects no row when the parameter is NULL, and never a row whose
  \<open>tenant_id\<close> is NULL.
\<close>

fun sql_eq :: "'a option \<Rightarrow> 'a option \<Rightarrow> bool" where
  "sql_eq (Some a) (Some b) = (a = b)"
| "sql_eq None y = False"
| "sql_eq (Some a) None = False"

text \<open>\<^verbatim>\<open>COALESCE($n, column)\<close>: the parameter unless it is NULL.\<close>

fun coalesce :: "'a option \<Rightarrow> 'a option \<Rightarrow> 'a option" where
  "coalesce (Some v) c = Some v"
| "coalesce None c = c"

fun coalesce_bool :: "bool option \<Rightarrow> bool \<Rightarrow> bool" where
  "coalesce_bool (Some v) c = v"
| "coalesce_bool None c = c"

text \<open>The nullish coalescing operator \<^verbatim>\<open>a ?? b\<close> of the update response.\<close>

fun nullish :: "'a js \<Rightarrow> 'a option \<Rightarrow> 'a option" where
  "nullish (Val v) c = Some v"
| "nullish Undefined c = c"
| "nullish Null c = c"

subsection \<open>Tables\<close>

text \<open>
  The tables hold the columns the routes read and write. The schema is not part of the
  sources: its constraints (not-null, unique, foreign keys and their cascades) are left
  out, so every INSERT of the model succeeds. Of the timestamp columns the model has
  \<open>users.created_at\<close>, by which the user lists are ordered, as a number; the timestamps
  of projects are read by no route of the model and are left out.
\<close>

record user_row =
  u_id :: string
  u_tenant_id :: "string option"
  u_email :: "string option"
  u_password_hash :: "string option"
  u_full_name :: "string option"
  u_role :: "string option"
  u_is_active :: bool
  u_created_at :: nat

record project_row =
  p_id :: string
  p_tenant_id :: "string option"
  p_name :: "string option"
  p_description :: "string option"
  p_status :: "string option"
  p_created_by :: "string option"

record tenant_row =
  t_id :: string
  t_max_users :: nat
  t_max_projects :: nat

record task_row =
  k_id :: string
  k_assigned_to :: "string option"

record audit_entry =
  a_tenantId :: "string option"
  a_userId :: string
  a_action :: string
  a_entityType :: string
  a_entityId :: string
  a_ip :: string

record db =
  users :: "user_row list"
  projects :: "project_row list"
  tenants :: "tenant_row list"
  tasks :: "task_row list"
  audit_logs :: "audit_entry list"

text \<open>
  Modelled from the spec: the value a new row gets in \<open>users.is_active\<close>, which the
  INSERT statements leave to the column default of the schema (not under src/).
\<close>

definition is_active_default :: bool where
  "is_active_default = True"

text \<open>
  Modelled from the spec: \<open>users.created_at\<close> of a new row is likewise left to the column
  default; it is taken to be the time of the INSERT, which the request's environment
  gives (\<open>now\<close> below).
\<close>

subsection \<open>Requests and responses\<close>

text \<open>
  A request as the handlers see it, after the \<open>auth\<close> middleware (not under src/) has
  decoded the token into \<^verbatim>\<open>req.user\<close> and \<^verbatim>\<open>req.tenantId\<close>. The path
  parameters and the body fields are the client's.
\<close>

record request =
  user_userId :: string
  user_role :: string
  tenantId :: "string option"
  params_tenantId :: string
  params_userId :: string
  params_projectId :: string
  ip :: string
  b_email :: "string js"
  b_password :: "string js"
  b_fullName :: "string js"
  b_role :: "string js"
  b_isActive :: "bool js"
  b_name :: "string js"
  b_description :: "string js"
  b_status :: "string js"

text \<open>
  The values the request obtains from outside the program: the identifier
  \<^verbatim>\<open>uuidv4()\<close> returns, the digest \<^verbatim>\<open>bcrypt.hash(password, 10)\<close> returns, and
  the database's clock at the time of an INSERT.
\<close>

record env =
  uuid :: string
  bcrypt_hash :: string
  now :: nat

record user_view =
  v_id :: string
  v_email :: "string option"
  v_full_name :: "string option"
  v_role :: "string option"
  v_is_active :: bool
  v_created_at :: nat

datatype payload =
    NoData
  | UserList "user_view list"
  | UserPage "user_view list" nat
  | NewUser string "string js" "string js" "string js"
  | NewId string
  | ProjectData string "string option" "string option" "string option"

record response =
  status :: nat
  success :: bool
  message :: "string option"
  data :: payload

definition json :: "nat \<Rightarrow> bool \<Rightarrow> string \<Rightarrow> response" where
  "json s ok m = \<lparr>status = s, success = ok, message = Some m, data = NoData\<rparr>"

text \<open>
  What one function of a route's stack does with a request: it calls \<open>next()\<close>, it sends
  a response, or it throws (an async handler without \<open>try\<close> whose promise rejects: no
  response is sent by the handler).
\<close>

datatype outcome = Next | Sent response | Thrown

type_synonym handler = "env \<Rightarrow> request \<Rightarrow> db \<Rightarrow> outcome \<times> db"

section \<open>Collaborators\<close>

text \<open>
  Modelled from the spec: \<open>auditLog\<close> (\<^verbatim>\<open>utils/auditLogger\<close> is not under src/). The
  spec gives the audit log one operation, appending an entry; the entry has the fields
  the handlers pass.
\<close>

definition auditLog :: "audit_entry \<Rightarrow> db \<Rightarrow> db" where
  "auditLog e d = d\<lparr>audit_logs := audit_logs d @ [e]\<rparr>"

text \<open>
  Modelled from the spec: \<open>requireRole\<close> (\<^verbatim>\<open>middleware/requireRole\<close> is not under
  src/). The spec gives user creation and deletion to the tenant administrator only and
  maps an authorisation failure to 403; the middleware answers 403 unless the actor's
  role is the required one, as the inline checks of API 8 and API 11 do.
\<close>

definition requireRole :: "string \<Rightarrow> handler" where
  "requireRole r e req d =
     (if user_role req = r then (Next, d) else (Sent (json 403 False ''Forbidden''), d))"

section \<open>The tenant guard\<close>

text \<open>JavaScript's \<^verbatim>\<open>!req.tenantId\<close>: true of null, undefined and the empty string.\<close>

fun falsy :: "string option \<Rightarrow> bool" where
  "falsy None = True"
| "falsy (Some s) = (s = [])"

definition tenantGuard :: handler where
  "tenantGuard e req d =
     (if user_role req = ''super_admin'' then (Next, d)
      else if falsy (tenantId req) then (Sent (json 403 False ''Tenant access denied''), d)
      else (Next, d))"

section \<open>Queries\<close>

text \<open>
  The columns the user lists select:
  \<^verbatim>\<open>SELECT id, email, full_name, role, is_active, created_at\<close>.
\<close>

definition view :: "user_row \<Rightarrow> user_view" where
  "view u = \<lparr>v_id = u_id u, v_email = u_email u, v_full_name = u_full_name u,
             v_role = u_role u, v_is_active = u_is_active u, v_created_at = u_created_at u\<rparr>"

text \<open>
  \<^verbatim>\<open>ORDER BY created_at DESC\<close>: the rows in descending order of \<open>created_at\<close>. The
  order of rows with the same \<open>created_at\<close> is the database's; the model keeps them in
  table order.
\<close>

definition newest_first :: "user_row list \<Rightarrow> user_row list" where
  "newest_first rows = sort_key (\<lambda>u. - int (u_created_at u)) rows"

definition users_of_tenant :: "db \<Rightarrow> string option \<Rightarrow> user_row list" where
  "users_of_tenant d t = filter (\<lambda>u. sql_eq (u_tenant_id u) t) (users d)"

definition projects_of_tenant :: "db \<Rightarrow> string option \<Rightarrow> project_row list" where
  "projects_of_tenant d t = filter (\<lambda>p. sql_eq (p_tenant_id p) t) (projects d)"

definition tenant_by_id :: "db \<Rightarrow> string option \<Rightarrow> tenant_row list" where
  "tenant_by_id d t = filter (\<lambda>r. sql_eq (Some (t_id r)) t) (tenants d)"

definition update_user :: "string js \<Rightarrow> string js \<Rightarrow> bool js \<Rightarrow> string \<Rightarrow> db \<Rightarrow> db" where
  "update_user fullName role isActive uid d =
     d\<lparr>users := map (\<lambda>u. if u_id u = uid
                            then u\<lparr>u_full_name := coalesce (to_sql fullName) (u_full_name u),
                                   u_role := coalesce (to_sql role) (u_role u),
                                   u_is_active := coalesce_bool (to_sql isActive) (u_is_active u)\<rparr>
                            else u) (users d)\<rparr>"

definition insert_user :: "env \<Rightarrow> string option \<Rightarrow> request \<Rightarrow> db \<Rightarrow> db" where
  "insert_user e t req d =
     d\<lparr>users := users d @
        [\<lparr>u_id = uuid e, u_tenant_id = t, u_email = to_sql (b_email req),
          u_password_hash = Some (bcrypt_hash e), u_full_name = to_sql (b_fullName req),
          u_role = to_sql (default_to ''user'' (b_role req)),
          u_is_active = is_active_default, u_created_at = now e\<rparr>]\<rparr>"

definition audit :: "request \<Rightarrow> string \<Rightarrow> string \<Rightarrow> string \<Rightarrow> db \<Rightarrow> db" where
  "audit req action entityType entityId d =
     auditLog \<lparr>a_tenantId = tenantId req, a_userId = user_userId req, a_action = action,
               a_entityType = entityType, a_entityId = entityId, a_ip = ip req\<rparr> d"

section \<open>User routes, as first registered\<close>

text \<open>
  \<^verbatim>\<open>POST /tenants/:tenantId/users\<close> (lines 21 to 61). \<open>rows[0]\<close> of an empty result
  is \<open>undefined\<close>, so reading \<open>max_users\<close> of a tenant that has no row throws;
  \<open>bcrypt.hash\<close> rejects a password that is not a string.
\<close>

definition post_tenant_users :: handler where
  "post_tenant_users e req d =
     (if Some (params_tenantId req) \<noteq> tenantId req
      then (Sent (json 403 False ''Cross-tenant access denied''), d)
      else
        (case tenant_by_id d (tenantId req) of
           [] \<Rightarrow> (Thrown, d)
         | t # ts \<Rightarrow>
             if length (users_of_tenant d (tenantId req)) \<ge> t_max_users t
             then (Sent (json 403 False ''Subscription limit reached''), d)
             else
               (case b_password req of
                  Val pw \<Rightarrow>
                    (Sent (json 201 True ''User created''),
                     audit req ''CREATE_USER'' ''user'' (uuid e)
                       (insert_user e (tenantId req) req d))
                | Undefined \<Rightarrow> (Thrown, d)
                | Null \<Rightarrow> (Thrown, d))))"

text \<open>\<^verbatim>\<open>GET /tenants/:tenantId/users\<close> (lines 71 to 83).\<close>

definition get_tenant_users :: handler where
  "get_tenant_users e req d =
     (if Some (params_tenantId req) \<noteq> tenantId req \<and> user_role req \<noteq> ''super_admin''
      then (Sent (json 403 False ''Forbidden''), d)
      else
        (Sent \<lparr>status = 200, success = True, message = None,
               data = UserList (map view (newest_first (users_of_tenant d (tenantId req))))\<rparr>,
         d))"

text \<open>\<^verbatim>\<open>PUT /users/:userId\<close> (lines 93 to 130).\<close>

definition put_users :: handler where
  "put_users e req d =
     (case filter (\<lambda>u. u_id u = params_userId req) (users d) of
        [] \<Rightarrow> (Sent (json 404 False ''User not found''), d)
      | target # rest \<Rightarrow>
          if user_role req \<noteq> ''tenant_admin'' \<and> user_userId req \<noteq> u_id target
          then (Sent (json 403 False ''Forbidden''), d)
          else
            (Sent (json 200 True ''User updated''),
             audit req ''UPDATE_USER'' ''user'' (u_id target)
               (update_user (b_fullName req) (b_role req) (b_isActive req) (u_id target) d)))"

text \<open>\<^verbatim>\<open>DELETE /users/:userId\<close> (lines 141 to 161).\<close>

definition delete_users :: handler where
  "delete_users e req d =
     (if user_userId req = params_userId req
      then (Sent (json 403 False ''Cannot delete yourself''), d)
      else
        (Sent (json 200 True ''User deleted''),
         audit req ''DELETE_USER'' ''user'' (params_userId req)
           (d\<lparr>users := filter (\<lambda>u. \<not> (u_id u = params_userId req \<and>
                                          sql_eq (u_tenant_id u) (tenantId req))) (users d)\<rparr>)))"

section \<open>User routes, as registered a second time (API 8 to API 11)\<close>

text \<open>
  These handlers wrap their body in \<open>try\<close>/\<open>catch\<close>: what throws is answered with 500
  and the error's message.
\<close>

definition post_tenant_users_api8 :: handler where
  "post_tenant_users_api8 e req d =
     (if user_role req \<noteq> ''tenant_admin''
      then (Sent (json 403 False ''Forbidden''), d)
      else
        (case tenant_by_id d (Some (params_tenantId req)) of
           [] \<Rightarrow>
             (Sent (json 500 False
                ''Cannot read properties of undefined (reading 'max_users')''), d)
         | t # ts \<Rightarrow>
             if length (users_of_tenant d (Some (params_tenantId req))) \<ge> t_max_users t
             then (Sent (json 403 False ''Subscription limit reached''), d)
             else
               (case b_password req of
                  Val pw \<Rightarrow>
                    (Sent \<lparr>status = 201, success = True,
                           message = Some ''User created successfully'',
                           data = NewUser (uuid e) (b_email req) (b_fullName req)
                                    (default_to ''user'' (b_role req))\<rparr>,
                     insert_user e (Some (params_tenantId req)) req d)
                | Undefined \<Rightarrow>
                    (Sent (json 500 False ''Illegal arguments: undefined, number''), d)
                | Null \<Rightarrow>
                    (Sent (json 500 False ''Illegal arguments: object, number''), d))))"

definition get_tenant_users_api9 :: handler where
  "get_tenant_users_api9 e req d =
     (let rows = map view (newest_first (users_of_tenant d (Some (params_tenantId req))))
      in (Sent \<lparr>status = 200, success = True, message = None,
                data = UserPage rows (length rows)\<rparr>, d))"

definition put_users_api10 :: handler where
  "put_users_api10 e req d =
     (case filter (\<lambda>u. u_id u = params_userId req) (users d) of
        [] \<Rightarrow> (Sent (json 404 False ''User not found''), d)
      | target # rest \<Rightarrow>
          if user_role req \<noteq> ''super_admin'' \<and> u_tenant_id target \<noteq> tenantId req
          then (Sent (json 403 False ''Forbidden''), d)
          else if (defined (b_role req) \<or> defined (b_isActive req)) \<and>
                  user_role req \<noteq> ''tenant_admin''
          then (Sent (json 403 False ''Not authorized''), d)
          else
            (Sent (json 200 True ''User updated successfully''),
             update_user (b_fullName req) (b_role req) (b_isActive req) (params_userId req) d))"

definition delete_users_api11 :: handler where
  "delete_users_api11 e req d =
     (if user_role req \<noteq> ''tenant_admin''
      then (Sent (json 403 False ''Forbidden''), d)
      else if params_userId req = user_userId req
      then (Sent (json 403 False ''Cannot delete yourself''), d)
      else
        (case filter (\<lambda>u. u_id u = params_userId req) (users d) of
           [] \<Rightarrow> (Sent (json 404 False ''User not found''), d)
         | target # rest \<Rightarrow>
             if u_tenant_id target \<noteq> tenantId req
             then (Sent (json 403 False ''Forbidden''), d)
             else
               (Sent (json 200 True ''User deleted successfully''),
                d\<lparr>tasks := map (\<lambda>k. if sql_eq (k_assigned_to k) (Some (params_userId req))
                                      then k\<lparr>k_assigned_to := None\<rparr> else k) (tasks d),
                  users := filter (\<lambda>u. u_id u \<noteq> params_userId req) (users d)\<rparr>)))"

section \<open>Project routes\<close>

text \<open>\<^verbatim>\<open>POST /\<close>, create project (lines 14 to 56).\<close>

definition insert_project :: "env \<Rightarrow> request \<Rightarrow> db \<Rightarrow> db" where
  "insert_project e req d =
     d\<lparr>projects := projects d @
        [\<lparr>p_id = uuid e, p_tenant_id = tenantId req, p_name = to_sql (b_name req),
          p_description = to_sql (default_to [] (b_description req)),
          p_status = to_sql (default_to ''active'' (b_status req)),
          p_created_by = Some (user_userId req)\<rparr>]\<rparr>"

definition post_project :: handler where
  "post_project e req d =
     (case tenant_by_id d (tenantId req) of
        [] \<Rightarrow> (Thrown, d)
      | t # ts \<Rightarrow>
          if length (projects_of_tenant d (tenantId req)) \<ge> t_max_projects t
          then (Sent (json 403 False ''Project limit reached''), d)
          else
            (Sent \<lparr>status = 201, success = True, message = Some ''Project created'',
                   data = NewId (uuid e)\<rparr>,
             audit req ''CREATE_PROJECT'' ''project'' (uuid e) (insert_project e req d)))"

text \<open>\<^verbatim>\<open>PUT /projects/:projectId\<close>, API 14 (lines 182 to 247).\<close>

definition update_project :: "string js \<Rightarrow> string js \<Rightarrow> string js \<Rightarrow> string \<Rightarrow> db \<Rightarrow> db" where
  "update_project name description st pid d =
     d\<lparr>projects := map (\<lambda>p. if p_id p = pid
                               then p\<lparr>p_name := coalesce (to_sql name) (p_name p),
                                      p_description := coalesce (to_sql description) (p_description p),
                                      p_status := coalesce (to_sql st) (p_status p)\<rparr>
                               else p) (projects d)\<rparr>"

definition put_project :: handler where
  "put_project e req d =
     (case filter (\<lambda>p. p_id p = params_projectId req \<and> sql_eq (p_tenant_id p) (tenantId req))
             (projects d) of
        [] \<Rightarrow> (Sent (json 404 False ''Project not found''), d)
      | project # rest \<Rightarrow>
          if user_role req \<noteq> ''tenant_admin'' \<and> p_created_by project \<noteq> Some (user_userId req)
          then (Sent (json 403 False ''Forbidden''), d)
          else
            (Sent \<lparr>status = 200, success = True,
                   message = Some ''Project updated successfully'',
                   data = ProjectData (p_id project)
                            (nullish (b_name req) (p_name project))
                            (nullish (b_description req) (p_description project))
                            (nullish (b_status req) (p_status project))\<rparr>,
             audit req ''UPDATE_PROJECT'' ''project'' (p_id project)
               (update_project (b_name req) (b_description req) (b_status req)
                  (p_id project) d)))"

text \<open>\<^verbatim>\<open>DELETE /projects/:projectId\<close>, API 15 (lines 257 to 307).\<close>

definition delete_project :: handler where
  "delete_project e req d =
     (case filter (\<lambda>p. p_id p = params_projectId req \<and> sql_eq (p_tenant_id p) (tenantId req))
             (projects d) of
        [] \<Rightarrow> (Sent (json 404 False ''Project not found''), d)
      | project # rest \<Rightarrow>
          if user_role req \<noteq> ''tenant_admin'' \<and> p_created_by project \<noteq> Some (user_userId req)
          then (Sent (json 403 False ''Forbidden''), d)
          else
            (Sent (json 200 True ''Project deleted successfully''),
             audit req ''DELETE_PROJECT'' ''project'' (p_id project)
               (d\<lparr>projects := filter (\<lambda>p. p_id p \<noteq> p_id project) (projects d)\<rparr>)))"

section \<open>Routing\<close>

text \<open>
  Express runs the functions of a route in the order given and moves on only when one
  calls \<open>next()\<close>; when the last function of a route calls \<open>next()\<close> the next route
  registered for the same method and path takes over. \<open>auth\<close>, first in every route,
  has produced the request record. A stack that is left by \<open>next()\<close> ends in \<open>Next\<close>.
\<close>

fun run_stack :: "handler list \<Rightarrow> handler" where
  "run_stack [] e req d = (Next, d)"
| "run_stack (h # hs) e req d =
     (case h e req d of
        (Next, d') \<Rightarrow> run_stack hs e req d'
      | (Sent r, d') \<Rightarrow> (Sent r, d')
      | (Thrown, d') \<Rightarrow> (Thrown, d'))"

definition route_post_tenant_users :: handler where
  "route_post_tenant_users =
     run_stack [requireRole ''tenant_admin'', tenantGuard, post_tenant_users,
                tenantGuard, post_tenant_users_api8]"

definition route_get_tenant_users :: handler where
  "route_get_tenant_users =
     run_stack [tenantGuard, get_tenant_users, tenantGuard, get_tenant_users_api9]"

definition route_put_users :: handler where
  "route_put_users = run_stack [tenantGuard, put_users, tenantGuard, put_users_api10]"

definition route_delete_users :: handler where
  "route_delete_users =
     run_stack [requireRole ''tenant_admin'', tenantGuard, delete_users,
                tenantGuard, delete_users_api11]"

definition route_post_project :: handler where
  "route_post_project = run_stack [tenantGuard, post_project]"

definition route_put_project :: handler where
  "route_put_project = run_stack [tenantGuard, put_project]"

definition route_delete_project :: handler where
  "route_delete_project = run_stack [tenantGuard, delete_project]"

section \<open>Token validation\<close>

text \<open>
  Modelled from the spec: the token validator (\<^verbatim>\<open>middleware/auth\<close>, first in every
  route, is not under src/). The spec's credential is a signed token that carries the
  actor id, the tenant id or null, the role and the time of issue; parsing and
  signature verification belong to a collaborator, whose answers are the fields
  \<open>c_claims\<close> (none when the token does not parse) and \<open>c_signature_valid\<close>.
  \<open>validate\<close> gives the claim set or a rejection: \<open>Malformed\<close> for a token that is not
  well-formed and for a parsed claim set whose role is the platform administrator's
  and whose tenant id is not null, even if the signature is valid; \<open>InvalidSignature\<close>;
  and \<open>Expired\<close> once the validity window, a parameter, has passed since issue.
\<close>

record claim_set =
  cl_actorId :: string
  cl_tenantId :: "string option"
  cl_role :: string

record credential =
  c_claims :: "claim_set option"
  c_issuedAt :: nat
  c_signature_valid :: bool

datatype rejection = InvalidSignature | Expired | Malformed

definition validate :: "nat \<Rightarrow> nat \<Rightarrow> credential \<Rightarrow> rejection + claim_set" where
  "validate window clock c =
     (case c_claims c of
        None \<Rightarrow> Inl Malformed
      | Some cs \<Rightarrow>
          if cl_role cs = ''super_admin'' \<and> cl_tenantId cs \<noteq> None then Inl Malformed
          else if \<not> c_signature_valid c then Inl InvalidSignature
          else if c_issuedAt c + window \<le> clock then Inl Expired
          else Inr cs)"

text \<open>
  Modelled from the spec: a request passes validation before anything else runs. A
  rejection ends it; a claim set becomes \<^verbatim>\<open>req.user\<close> and \<^verbatim>\<open>req.tenantId\<close> of the
  request the route's stack then receives (the path parameters and the body are the
  client's).
\<close>

definition with_claims :: "claim_set \<Rightarrow> request \<Rightarrow> request" where
  "with_claims cs req =
     req\<lparr>user_userId := cl_actorId cs, user_role := cl_role cs, tenantId := cl_tenantId cs\<rparr>"

definition authenticated ::
  "nat \<Rightarrow> nat \<Rightarrow> credential \<Rightarrow> handler \<Rightarrow> env \<Rightarrow> request \<Rightarrow> db
     \<Rightarrow> rejection + (outcome \<times> db)" where
  "authenticated window clock c h e req d =
     (case validate window clock c of
        Inl why \<Rightarrow> Inl why
      | Inr cs \<Rightarrow> Inr (h e (with_claims cs req) d))"

section \<open>Requests served one after another, and interleaved\<close>

text \<open>Requests served to completion, one after another, by one route.\<close>

fun serve :: "handler \<Rightarrow> (env \<times> request) list \<Rightarrow> db \<Rightarrow> outcome list \<times> db" where
  "serve h [] d = ([], d)"
| "serve h (er # rs) d =
     (case h (fst er) (snd er) d of
        (out, d') \<Rightarrow> (case serve h rs d' of (outs, d'') \<Rightarrow> (out # outs, d'')))"

fun created :: "outcome \<Rightarrow> bool" where
  "created (Sent r) = (status r = 201)"
| "created Next = False"
| "created Thrown = False"

text \<open>
  A request that the first-registered handler of \<^verbatim>\<open>POST /tenants/:tenantId/users\<close>
  takes as far as its quota check: sent by a tenant administrator of tenant \<open>T\<close>, to
  the path of \<open>T\<close>, with a password in its body.
\<close>

definition creates_user_in :: "string \<Rightarrow> request \<Rightarrow> bool" where
  "creates_user_in T req =
     (user_role req = ''tenant_admin'' \<and> tenantId req = Some T \<and> params_tenantId req = T \<and>
      to_sql (b_password req) \<noteq> None)"

text \<open>
  The handler of \<^verbatim>\<open>POST /\<close> awaits four times: the COUNT query, the tenant query,
  the INSERT and the audit entry. Between two awaits the event loop may run another
  request's handler, and the database runs each statement on its own (the handler opens
  no transaction). A thread of the handler is therefore at one of these points, with
  the count it has read so far, or finished.
\<close>

datatype pc = AtCount | AtTenant nat | AtInsert | AtAudit | Finished outcome

fun post_project_step :: "env \<Rightarrow> request \<Rightarrow> pc \<Rightarrow> db \<Rightarrow> pc \<times> db" where
  "post_project_step e req AtCount d =
     (AtTenant (length (projects_of_tenant d (tenantId req))), d)"
| "post_project_step e req (AtTenant n) d =
     (case tenant_by_id d (tenantId req) of
        [] \<Rightarrow> (Finished Thrown, d)
      | t # ts \<Rightarrow>
          if n \<ge> t_max_projects t
          then (Finished (Sent (json 403 False ''Project limit reached'')), d)
          else (AtInsert, d))"
| "post_project_step e req AtInsert d = (AtAudit, insert_project e req d)"
| "post_project_step e req AtAudit d =
     (Finished (Sent \<lparr>status = 201, success = True, message = Some ''Project created'',
                      data = NewId (uuid e)\<rparr>),
      audit req ''CREATE_PROJECT'' ''project'' (uuid e) d)"
| "post_project_step e req (Finished out) d = (Finished out, d)"

record thread =
  th_env :: env
  th_req :: request
  th_pc :: pc

text \<open>
  One step of thread \<open>i\<close> (a thread that does not exist takes no step); a schedule
  names the thread that runs next, step by step. A thread starts at the COUNT query.
\<close>

definition step_thread :: "nat \<Rightarrow> thread list \<times> db \<Rightarrow> thread list \<times> db" where
  "step_thread i c =
     (if i < length (fst c)
      then (let th = fst c ! i;
                r = post_project_step (th_env th) (th_req th) (th_pc th) (snd c)
            in ((fst c)[i := th\<lparr>th_pc := fst r\<rparr>], snd r))
      else c)"

definition start :: "env \<Rightarrow> request \<Rightarrow> thread" where
  "start e req = \<lparr>th_env = e, th_req = req, th_pc = AtCount\<rparr>"

fun run_schedule :: "nat list \<Rightarrow> thread list \<times> db \<Rightarrow> thread list \<times> db" where
  "run_schedule [] c = c"
| "run_schedule (i # sched) c = run_schedule sched (step_thread i c)"

section \<open>Sample data\<close>

text \<open>
  The seeded tenant and users of the repository (\<open>Demo Company\<close>, its administrator and
  the platform's super admin), a member of the seeded tenant, and a second tenant with
  room for one project and two users. The users were created in the order listed.
\<close>

definition demo :: string where
  "demo = ''11111111-1111-1111-1111-111111111111''"

definition acme :: string where
  "acme = ''22222222-2222-2222-2222-222222222222''"

definition super_id :: string where
  "super_id = ''aaaaaaaa-aaaa-aaaa-aaaa-aaaaaaaaaaaa''"

definition admin_id :: string where
  "admin_id = ''bbbbbbbb-bbbb-bbbb-bbbb-bbbbbbbbbbbb''"

definition member_id :: string where
  "member_id = ''cccccccc-cccc-cccc-cccc-cccccccccccc''"

definition acme_admin_id :: string where
  "acme_admin_id = ''dddddddd-dddd-dddd-dddd-dddddddddddd''"

definition acme_project_id :: string where
  "acme_project_id = ''eeeeeeee-eeee-eeee-eeee-eeeeeeeeeeee''"

definition absent_id :: string where
  "absent_id = ''ffffffff-ffff-ffff-ffff-ffffffffffff''"

definition mk_user ::
  "string \<Rightarrow> string option \<Rightarrow> string \<Rightarrow> string \<Rightarrow> string \<Rightarrow> nat \<Rightarrow> user_row" where
  "mk_user i t mail name r at =
     \<lparr>u_id = i, u_tenant_id = t, u_email = Some mail, u_password_hash = Some ''$2b$10$hash'',
      u_full_name = Some name, u_role = Some r, u_is_active = True, u_created_at = at\<rparr>"

definition acme_project :: project_row where
  "acme_project =
     \<lparr>p_id = acme_project_id, p_tenant_id = Some acme, p_name = Some ''Roadmap'',
      p_description = Some [], p_status = Some ''active'', p_created_by = Some acme_admin_id\<rparr>"

definition seed :: db where
  "seed =
     \<lparr>users =
        [mk_user super_id None ''superadmin@system.com'' ''Super Admin'' ''super_admin'' 1,
         mk_user admin_id (Some demo) ''admin@demo.com'' ''Demo Admin'' ''tenant_admin'' 2,
         mk_user member_id (Some demo) ''user@demo.com'' ''Demo User'' ''user'' 3,
         mk_user acme_admin_id (Some acme) ''admin@acme.com'' ''Acme Admin'' ''tenant_admin'' 4],
      projects = [acme_project],
      tenants =
        [\<lparr>t_id = demo, t_max_users = 25, t_max_projects = 15\<rparr>,
         \<lparr>t_id = acme, t_max_users = 2, t_max_projects = 1\<rparr>],
      tasks = [],
      audit_logs = []\<rparr>"

definition env0 :: env where
  "env0 = \<lparr>uuid = ''99999999-9999-4999-8999-999999999999'', bcrypt_hash = ''$2b$10$new'',
           now = 10\<rparr>"

definition env1 :: env where
  "env1 = \<lparr>uuid = ''88888888-8888-4888-8888-888888888888'', bcrypt_hash = ''$2b$10$new'',
           now = 11\<rparr>"

text \<open>A request of the given actor with an empty body and empty path parameters.\<close>

definition request_of :: "string \<Rightarrow> string \<Rightarrow> string option \<Rightarrow> request" where
  "request_of uid r t =
     \<lparr>user_userId = uid, user_role = r, tenantId = t, params_tenantId = [],
      params_userId = [], params_projectId = [], ip = ''127.0.0.1'',
      b_email = Undefined, b_password = Undefined, b_fullName = Undefined,
      b_role = Undefined, b_isActive = Undefined, b_name = Undefined,
      b_description = Undefined, b_status = Undefined\<rparr>"

definition as_admin :: request where
  "as_admin = request_of admin_id ''tenant_admin'' (Some demo)"

definition as_member :: request where
  "as_member = request_of member_id ''user'' (Some demo)"

definition as_super :: request where
  "as_super = request_of super_id ''super_admin'' None"

definition as_acme_admin :: request where
  "as_acme_admin = request_of acme_admin_id ''tenant_admin'' (Some acme)"

text \<open>
  A validity window of a day, in seconds; the seeded super admin's credential; and a
  credential with a valid signature whose claims pair the super admin's role with the
  seeded tenant's id.
\<close>

definition day :: nat where
  "day = 86400"

definition forged :: credential where
  "forged = \<lparr>c_claims = Some \<lparr>cl_actorId = super_id, cl_tenantId = Some demo,
                              cl_role = ''super_admin''\<rparr>,
             c_issuedAt = 0, c_signature_valid = True\<rparr>"

definition super_token :: credential where
  "super_token = \<lparr>c_claims = Some \<lparr>cl_actorId = super_id, cl_tenantId = None,
                                   cl_role = ''super_admin''\<rparr>,
                  c_issuedAt = 0, c_signature_valid = True\<rparr>"


section \<open>Properties\<close>

lemmas sample_defs =
  demo_def acme_def super_id_def admin_id_def member_id_def acme_admin_id_def
  acme_project_id_def absent_id_def mk_user_def acme_project_def seed_def env0_def env1_def
  request_of_def as_admin_def as_member_def as_super_def as_acme_admin_def

lemmas query_defs =
  users_of_tenant_def projects_of_tenant_def tenant_by_id_def update_user_def insert_user_def
  insert_project_def update_project_def audit_def auditLog_def json_def view_def
  is_active_default_def

lemmas handler_defs =
  post_tenant_users_def get_tenant_users_def put_users_def delete_users_def
  post_tenant_users_api8_def get_tenant_users_api9_def put_users_api10_def
  delete_users_api11_def post_project_def put_project_def delete_project_def

lemma sql_eq_None [simp]: "sql_eq x None = False"
  by (cases x) simp_all

lemma sql_eq_Some [simp]: "sql_eq x (Some b) = (x = Some b)"
  by (cases x) auto

lemma status_json [simp]: "status (json s ok m) = s"
  by (simp add: json_def)

subsection \<open>Which handler serves a route\<close>

text \<open>
  The handlers registered first never call \<open>next()\<close>: they send a response or throw. The
  handlers registered for the same method and path a second time (API 8 to API 11) are
  therefore never reached, and each route is its guards followed by its first handler.
\<close>

lemma run_stack_shadow:
  assumes "fst (h e req d) \<noteq> Next"
  shows "run_stack (h # hs) e req d = h e req d"
  using assms by (cases "h e req d") (auto split: outcome.splits)

lemma post_tenant_users_shadow:
  "run_stack (post_tenant_users # hs) e req d = post_tenant_users e req d"
  by (rule run_stack_shadow) (simp add: post_tenant_users_def split: list.splits js.splits)

lemma get_tenant_users_shadow:
  "run_stack (get_tenant_users # hs) e req d = get_tenant_users e req d"
  by (rule run_stack_shadow) (simp add: get_tenant_users_def)

lemma put_users_shadow: "run_stack (put_users # hs) e req d = put_users e req d"
  by (rule run_stack_shadow) (simp add: put_users_def split: list.splits)

lemma delete_users_shadow: "run_stack (delete_users # hs) e req d = delete_users e req d"
  by (rule run_stack_shadow) (simp add: delete_users_def)

lemma run_stack_tenantGuard:
  "run_stack (tenantGuard # hs) e req d =
     (if user_role req = ''super_admin'' then run_stack hs e req d
      else if falsy (tenantId req) then (Sent (json 403 False ''Tenant access denied''), d)
      else run_stack hs e req d)"
  by (simp add: tenantGuard_def)

lemma run_stack_requireRole:
  "run_stack (requireRole r # hs) e req d =
     (if user_role req = r then run_stack hs e req d
      else (Sent (json 403 False ''Forbidden''), d))"
  by (simp add: requireRole_def)

lemmas stack_simps =
  run_stack_tenantGuard run_stack_requireRole post_tenant_users_shadow
  get_tenant_users_shadow put_users_shadow delete_users_shadow

lemma route_post_tenant_users_eq:
  "route_post_tenant_users e req d =
     (if user_role req \<noteq> ''tenant_admin'' then (Sent (json 403 False ''Forbidden''), d)
      else if falsy (tenantId req) then (Sent (json 403 False ''Tenant access denied''), d)
      else post_tenant_users e req d)"
  by (simp add: route_post_tenant_users_def stack_simps del: run_stack.simps)

lemma route_get_tenant_users_eq:
  "route_get_tenant_users e req d =
     (if user_role req \<noteq> ''super_admin'' \<and> falsy (tenantId req)
      then (Sent (json 403 False ''Tenant access denied''), d)
      else if user_role req \<noteq> ''super_admin'' \<and> Some (params_tenantId req) \<noteq> tenantId req
      then (Sent (json 403 False ''Forbidden''), d)
      else (Sent \<lparr>status = 200, success = True, message = None,
                  data = UserList (map view (newest_first (users_of_tenant d (tenantId req))))\<rparr>,
            d))"
  by (simp add: route_get_tenant_users_def stack_simps get_tenant_users_def
      del: run_stack.simps)

lemma route_put_users_eq:
  "route_put_users e req d =
     (if user_role req \<noteq> ''super_admin'' \<and> falsy (tenantId req)
      then (Sent (json 403 False ''Tenant access denied''), d)
      else put_users e req d)"
  by (simp add: route_put_users_def stack_simps del: run_stack.simps)

lemma route_delete_users_eq:
  "route_delete_users e req d =
     (if user_role req \<noteq> ''tenant_admin'' then (Sent (json 403 False ''Forbidden''), d)
      else if falsy (tenantId req) then (Sent (json 403 False ''Tenant access denied''), d)
      else delete_users e req d)"
  by (simp add: route_delete_users_def stack_simps del: run_stack.simps)

lemma route_post_project_eq:
  "route_post_project e req d =
     (if user_role req \<noteq> ''super_admin'' \<and> falsy (tenantId req)
      then (Sent (json 403 False ''Tenant access denied''), d)
      else post_project e req d)"
  by (simp add: route_post_project_def tenantGuard_def post_project_def split: list.splits)

lemma route_put_project_eq:
  "route_put_project e req d =
     (if user_role req \<noteq> ''super_admin'' \<and> falsy (tenantId req)
      then (Sent (json 403 False ''Tenant access denied''), d)
      else put_project e req d)"
  by (simp add: route_put_project_def tenantGuard_def put_project_def split: list.splits)

lemma route_delete_project_eq:
  "route_delete_project e req d =
     (if user_role req \<noteq> ''super_admin'' \<and> falsy (tenantId req)
      then (Sent (json 403 False ''Tenant access denied''), d)
      else delete_project e req d)"
  by (simp add: route_delete_project_def tenantGuard_def delete_project_def split: list.splits)

lemmas route_eqs =
  route_post_tenant_users_eq route_get_tenant_users_eq route_put_users_eq
  route_delete_users_eq route_post_project_eq route_put_project_eq route_delete_project_eq

text \<open>
  Were they reached, the handlers registered second would select by the tenant named in
  the path: API 8 creates the user in the path's tenant and API 9 lists its users,
  neither comparing it with the tenant id of the claims.
\<close>

lemma second_handlers_select_by_path:
  "post_tenant_users_api8 env0
      (as_admin\<lparr>params_tenantId := acme, b_password := Val ''secret''\<rparr>) seed
     = (Sent \<lparr>status = 201, success = True, message = Some ''User created successfully'',
              data = NewUser (uuid env0) Undefined Undefined (Val ''user'')\<rparr>,
        insert_user env0 (Some acme)
          (as_admin\<lparr>params_tenantId := acme, b_password := Val ''secret''\<rparr>) seed)
   \<and> get_tenant_users_api9 env0 (as_member\<lparr>params_tenantId := acme\<rparr>) seed
     = (Sent \<lparr>status = 200, success = True, message = None,
              data = UserPage (map view (users_of_tenant seed (Some acme))) 1\<rparr>, seed)"
  by (simp add: post_tenant_users_api8_def get_tenant_users_api9_def tenant_by_id_def
      users_of_tenant_def newest_first_def Let_def sample_defs)

subsection \<open>Validation of the claims\<close>

text \<open>
  The tenant guard itself never looks at the tenant id of a super admin: that a super
  admin's claims carry no tenant id is for validation to ensure.
\<close>

lemma tenantGuard_admits_super_admin:
  "user_role req = ''super_admin'' \<Longrightarrow> tenantGuard e req d = (Next, d)"
  by (simp add: tenantGuard_def)

text \<open>
  C4: a credential whose claims have the platform administrator's role and a tenant id
  is rejected by validation as \<open>Malformed\<close>, whatever its signature and age, and the
  request ends there: no route is run for it. Conversely every claim set that validation
  lets through, and so every request that a route's stack receives, has no tenant id
  when its role is the platform administrator's.
\<close>

theorem contradictory_claims_rejected:
  assumes "c_claims c = Some cs" and "cl_role cs = ''super_admin''" and "cl_tenantId cs \<noteq> None"
  shows "validate window clock c = Inl Malformed
       \<and> authenticated window clock c h e req d = Inl Malformed
       \<and> (\<forall>c' cs'. validate window clock c' = Inr cs' \<longrightarrow>
             c_claims c' = Some cs' \<and> (cl_role cs' = ''super_admin'' \<longrightarrow> cl_tenantId cs' = None))
       \<and> (\<forall>c' r. authenticated window clock c' h e req d = Inr r \<longrightarrow>
             (\<exists>cs'. c_claims c' = Some cs' \<and> r = h e (with_claims cs' req) d
                \<and> (user_role (with_claims cs' req) = ''super_admin'' \<longrightarrow>
                     tenantId (with_claims cs' req) = None)))"
proof -
  have v: "validate window clock c = Inl Malformed"
    using assms by (simp add: validate_def)
  then have a: "authenticated window clock c h e req d = Inl Malformed"
    by (simp add: authenticated_def)
  have i: "c_claims c' = Some cs' \<and> (cl_role cs' = ''super_admin'' \<longrightarrow> cl_tenantId cs' = None)"
    if "validate window clock c' = Inr cs'" for c' cs'
    using that by (auto simp: validate_def split: option.splits if_splits)
  have p: "\<exists>cs'. c_claims c' = Some cs' \<and> r = h e (with_claims cs' req) d
                \<and> (user_role (with_claims cs' req) = ''super_admin'' \<longrightarrow>
                     tenantId (with_claims cs' req) = None)"
    if "authenticated window clock c' h e req d = Inr r" for c' r
  proof -
    from that obtain cs' where ok: "validate window clock c' = Inr cs'"
      and r: "r = h e (with_claims cs' req) d"
      by (auto simp: authenticated_def split: sum.splits)
    from i [OF ok] r show ?thesis by (auto simp: with_claims_def)
  qed
  from v a i p show ?thesis by blast
qed

text \<open>
  C4 at a credential with a valid signature, within its validity window, that pairs the
  super admin's role with the seeded tenant's id; the seeded super admin's own
  credential is let through to the route.
\<close>

theorem contradictory_claims_rejected_witness:
  "validate day 100 forged = Inl Malformed
   \<and> authenticated day 100 forged route_get_tenant_users env0
        ((request_of [] [] None)\<lparr>params_tenantId := demo\<rparr>) seed = Inl Malformed
   \<and> authenticated day 100 super_token route_get_tenant_users env0
        ((request_of [] [] None)\<lparr>params_tenantId := demo\<rparr>) seed
       = Inr (Sent \<lparr>status = 200, success = True, message = None, data = UserList []\<rparr>, seed)"
proof -
  let ?cs = "\<lparr>cl_actorId = super_id, cl_tenantId = Some demo, cl_role = ''super_admin''\<rparr>"
  have h1: "c_claims forged = Some ?cs" by (simp add: forged_def)
  have h2: "cl_role ?cs = ''super_admin''" by simp
  have h3: "cl_tenantId ?cs \<noteq> None" by simp
  have ok: "authenticated day 100 super_token route_get_tenant_users env0
        ((request_of [] [] None)\<lparr>params_tenantId := demo\<rparr>) seed
       = Inr (Sent \<lparr>status = 200, success = True, message = None, data = UserList []\<rparr>, seed)"
    by (simp add: authenticated_def validate_def super_token_def day_def with_claims_def
        route_get_tenant_users_eq users_of_tenant_def newest_first_def request_of_def)
  from contradictory_claims_rejected [OF h1 h2 h3, of day 100 route_get_tenant_users env0
      "(request_of [] [] None)\<lparr>params_tenantId := demo\<rparr>" seed] ok
  show ?thesis by simp
qed

subsection \<open>Listing the users of a tenant\<close>

lemma newest_first_mset: "mset (newest_first rows) = mset rows"
  by (simp add: newest_first_def)

lemma newest_first_sorted: "sorted (rev (map u_created_at (newest_first rows)))"
proof -
  have "sorted (map (\<lambda>u. - int (u_created_at u)) (newest_first rows))"
    by (simp add: newest_first_def)
  then show ?thesis
    by (simp add: sorted_wrt_rev sorted_map sorted_wrt_map)
qed

lemma listed_users:
  assumes "route_get_tenant_users e req d = (Sent r, d')" and "status r = 200"
  shows "(\<exists>vs. data r = UserList vs
           \<and> mset vs = mset (map (\<lambda>u. \<lparr>v_id = u_id u, v_email = u_email u,
                                       v_full_name = u_full_name u, v_role = u_role u,
                                       v_is_active = u_is_active u,
                                       v_created_at = u_created_at u\<rparr>)
                             (filter (\<lambda>u. tenantId req \<noteq> None \<and> u_tenant_id u = tenantId req)
                                (users d)))
           \<and> sorted (rev (map v_created_at vs)))
         \<and> d' = d"
proof -
  let ?rows = "newest_first (users_of_tenant d (tenantId req))"
  have sel: "users_of_tenant d (tenantId req)
               = filter (\<lambda>u. tenantId req \<noteq> None \<and> u_tenant_id u = tenantId req) (users d)"
    by (cases "tenantId req") (simp_all add: users_of_tenant_def)
  from assms have r: "data r = UserList (map view ?rows)" and d: "d' = d"
    by (auto simp: route_get_tenant_users_eq split: if_splits)
  have m: "mset (map view ?rows) = mset (map view (users_of_tenant d (tenantId req)))"
    by (simp add: newest_first_mset)
  have v: "view = (\<lambda>u. \<lparr>v_id = u_id u, v_email = u_email u,
                                       v_full_name = u_full_name u, v_role = u_role u,
                                       v_is_active = u_is_active u,
                                       v_created_at = u_created_at u\<rparr>)"
    by (rule ext) (simp add: view_def)
  have s: "sorted (rev (map v_created_at (map view ?rows)))"
    using newest_first_sorted [of "users_of_tenant d (tenantId req)"]
    by (simp add: view_def comp_def)
  from r d m s show ?thesis unfolding sel v by blast
qed

text \<open>
  C10: whenever \<^verbatim>\<open>GET /tenants/:tenantId/users\<close> answers with a list, the list holds
  exactly the users whose \<open>tenant_id\<close> equals the tenant id of the actor's claims, each
  with its id, email, full name, role, active state and creation time, newest first;
  the path parameter selects nothing, and the database is unchanged. A super admin
  whose claims carry no tenant id passes the cross-tenant check for every path and
  receives the rows selected by the null tenant id, which (a SQL comparison with NULL
  being never true) are none: the list is empty whatever tenant the path names.
\<close>

theorem list_users_selects_by_claim:
  "(\<forall>r d'. route_get_tenant_users e req d = (Sent r, d') \<and> status r = 200 \<longrightarrow>
       (\<exists>vs. data r = UserList vs
           \<and> mset vs = mset (map (\<lambda>u. \<lparr>v_id = u_id u, v_email = u_email u,
                                       v_full_name = u_full_name u, v_role = u_role u,
                                       v_is_active = u_is_active u,
                                       v_created_at = u_created_at u\<rparr>)
                             (filter (\<lambda>u. tenantId req \<noteq> None \<and> u_tenant_id u = tenantId req)
                                (users d)))
           \<and> sorted (rev (map v_created_at vs)))
       \<and> d' = d)
   \<and> (user_role req = ''super_admin'' \<and> tenantId req = None \<longrightarrow>
       route_get_tenant_users e req d =
         (Sent \<lparr>status = 200, success = True, message = None, data = UserList []\<rparr>, d))"
proof -
  have a: "\<forall>r d'. route_get_tenant_users e req d = (Sent r, d') \<and> status r = 200 \<longrightarrow>
       (\<exists>vs. data r = UserList vs
           \<and> mset vs = mset (map (\<lambda>u. \<lparr>v_id = u_id u, v_email = u_email u,
                                       v_full_name = u_full_name u, v_role = u_role u,
                                       v_is_active = u_is_active u,
                                       v_created_at = u_created_at u\<rparr>)
                             (filter (\<lambda>u. tenantId req \<noteq> None \<and> u_tenant_id u = tenantId req)
                                (users d)))
           \<and> sorted (rev (map v_created_at vs)))
       \<and> d' = d"
    using listed_users by blast
  have b: "user_role req = ''super_admin'' \<and> tenantId req = None \<longrightarrow>
       route_get_tenant_users e req d =
         (Sent \<lparr>status = 200, success = True, message = None, data = UserList []\<rparr>, d)"
    by (simp add: route_get_tenant_users_eq users_of_tenant_def newest_first_def)
  from a b show ?thesis by blast
qed

text \<open>
  C10 at the seeded super admin asking for the seeded tenant, which has two users, and
  at the seeded tenant's administrator asking for their own tenant: the member, created
  last, is listed first.
\<close>

theorem list_users_selects_by_claim_witness:
  "route_get_tenant_users env0 (as_super\<lparr>params_tenantId := demo\<rparr>) seed =
     (Sent \<lparr>status = 200, success = True, message = None, data = UserList []\<rparr>, seed)
   \<and> map u_id (filter (\<lambda>u. u_tenant_id u = Some demo) (users seed)) = [admin_id, member_id]
   \<and> map v_id (case data (case fst (route_get_tenant_users env0
                   (as_admin\<lparr>params_tenantId := demo\<rparr>) seed) of Sent r \<Rightarrow> r) of
                 UserList vs \<Rightarrow> vs) = [member_id, admin_id]"
proof -
  let ?q = "as_super\<lparr>params_tenantId := demo\<rparr>"
  have s: "user_role ?q = ''super_admin'' \<and> tenantId ?q = None"
    by (simp add: as_super_def request_of_def)
  have a: "route_get_tenant_users env0 ?q seed =
     (Sent \<lparr>status = 200, success = True, message = None, data = UserList []\<rparr>, seed)"
    using list_users_selects_by_claim [of env0 ?q seed] s by blast
  have b: "map u_id (filter (\<lambda>u. u_tenant_id u = Some demo) (users seed)) = [admin_id, member_id]"
    by (simp add: sample_defs)
  have c: "map v_id (case data (case fst (route_get_tenant_users env0
                   (as_admin\<lparr>params_tenantId := demo\<rparr>) seed) of Sent r \<Rightarrow> r) of
                 UserList vs \<Rightarrow> vs) = [member_id, admin_id]"
    by (simp add: route_get_tenant_users_eq users_of_tenant_def newest_first_def view_def
        sample_defs)
  from a b c show ?thesis by simp
qed

subsection \<open>The tenant named in the path\<close>

text \<open>
  C8, as stated, fails in the reason of the refusal. A request whose path names another
  tenant than the claims is refused, but as \<open>Cross-tenant access denied\<close> only on the
  creation route and only for a tenant administrator: the list route answers
  \<open>Forbidden\<close> (to the administrator and to the member of the seeded tenant alike), and
  on the creation route a member is turned away by the role check, which runs first.
\<close>

theorem path_mismatch_reason_varies:
  "route_get_tenant_users env0 (as_admin\<lparr>params_tenantId := acme\<rparr>) seed
     = (Sent (json 403 False ''Forbidden''), seed)
   \<and> route_get_tenant_users env0 (as_member\<lparr>params_tenantId := acme\<rparr>) seed
     = (Sent (json 403 False ''Forbidden''), seed)
   \<and> get_tenant_users env0 (as_member\<lparr>params_tenantId := acme\<rparr>) seed
     = (Sent (json 403 False ''Forbidden''), seed)
   \<and> route_post_tenant_users env0 (as_member\<lparr>params_tenantId := acme\<rparr>) seed
     = (Sent (json 403 False ''Forbidden''), seed)
   \<and> user_role as_admin \<noteq> ''super_admin'' \<and> user_role as_member \<noteq> ''super_admin''
   \<and> tenantId as_admin = Some demo \<and> tenantId as_member = Some demo \<and> demo \<noteq> acme
   \<and> json 403 False ''Forbidden'' \<noteq> json 403 False ''Cross-tenant access denied''"
  by (simp add: route_eqs get_tenant_users_def json_def sample_defs)

text \<open>
  C8, amended: on the two routes whose path names a tenant, a request of an actor other
  than the super admin whose path tenant differs from the tenant id of its claims is
  answered 403 and leaves the database unchanged. On the creation route the answer is
  \<open>Forbidden\<close> from the role check for an actor who is not a tenant administrator,
  \<open>Tenant access denied\<close> from the tenant guard for one without a tenant id, and
  \<open>Cross-tenant access denied\<close> otherwise; on the list route it is \<open>Tenant access denied\<close>
  or \<open>Forbidden\<close>. A user is created only when path and claims agree, and the new row
  carries the tenant id of the claims; a list that is returned holds the users selected
  by the tenant id of the claims, newest first.
\<close>

theorem path_tenant_must_match_claim:
  "(user_role req \<noteq> ''super_admin'' \<and> Some (params_tenantId req) \<noteq> tenantId req \<longrightarrow>
      route_post_tenant_users e req d =
        (Sent (json 403 False
           (if user_role req \<noteq> ''tenant_admin'' then ''Forbidden''
            else if falsy (tenantId req) then ''Tenant access denied''
            else ''Cross-tenant access denied'')), d)
      \<and> route_get_tenant_users e req d =
        (Sent (json 403 False
           (if falsy (tenantId req) then ''Tenant access denied'' else ''Forbidden'')), d))
   \<and> (\<forall>r d'. route_post_tenant_users e req d = (Sent r, d') \<and> status r = 201 \<longrightarrow>
         Some (params_tenantId req) = tenantId req
         \<and> d' = audit req ''CREATE_USER'' ''user'' (uuid e) (insert_user e (tenantId req) req d)
         \<and> users d' = users d @
             [\<lparr>u_id = uuid e, u_tenant_id = tenantId req, u_email = to_sql (b_email req),
               u_password_hash = Some (bcrypt_hash e), u_full_name = to_sql (b_fullName req),
               u_role = to_sql (default_to ''user'' (b_role req)),
               u_is_active = is_active_default, u_created_at = now e\<rparr>])
   \<and> (\<forall>r d'. route_get_tenant_users e req d = (Sent r, d') \<and> status r = 200 \<longrightarrow>
         (\<exists>vs. data r = UserList vs
           \<and> mset vs = mset (map (\<lambda>u. \<lparr>v_id = u_id u, v_email = u_email u,
                                       v_full_name = u_full_name u, v_role = u_role u,
                                       v_is_active = u_is_active u,
                                       v_created_at = u_created_at u\<rparr>)
                             (filter (\<lambda>u. tenantId req \<noteq> None \<and> u_tenant_id u = tenantId req)
                                (users d)))
           \<and> sorted (rev (map v_created_at vs)))
         \<and> d' = d)"
proof -
  have a: "user_role req \<noteq> ''super_admin'' \<and> Some (params_tenantId req) \<noteq> tenantId req \<longrightarrow>
      route_post_tenant_users e req d =
        (Sent (json 403 False
           (if user_role req \<noteq> ''tenant_admin'' then ''Forbidden''
            else if falsy (tenantId req) then ''Tenant access denied''
            else ''Cross-tenant access denied'')), d)
      \<and> route_get_tenant_users e req d =
        (Sent (json 403 False
           (if falsy (tenantId req) then ''Tenant access denied'' else ''Forbidden'')), d)"
    by (simp add: route_post_tenant_users_eq route_get_tenant_users_eq post_tenant_users_def)
  have b: "\<forall>r d'. route_post_tenant_users e req d = (Sent r, d') \<and> status r = 201 \<longrightarrow>
         Some (params_tenantId req) = tenantId req
         \<and> d' = audit req ''CREATE_USER'' ''user'' (uuid e) (insert_user e (tenantId req) req d)
         \<and> users d' = users d @
             [\<lparr>u_id = uuid e, u_tenant_id = tenantId req, u_email = to_sql (b_email req),
               u_password_hash = Some (bcrypt_hash e), u_full_name = to_sql (b_fullName req),
               u_role = to_sql (default_to ''user'' (b_role req)),
               u_is_active = is_active_default, u_created_at = now e\<rparr>]"
    by (auto simp: route_post_tenant_users_eq post_tenant_users_def audit_def auditLog_def
        insert_user_def split: if_splits list.splits js.splits)
  have c: "\<forall>r d'. route_get_tenant_users e req d = (Sent r, d') \<and> status r = 200 \<longrightarrow>
         (\<exists>vs. data r = UserList vs
           \<and> mset vs = mset (map (\<lambda>u. \<lparr>v_id = u_id u, v_email = u_email u,
                                       v_full_name = u_full_name u, v_role = u_role u,
                                       v_is_active = u_is_active u,
                                       v_created_at = u_created_at u\<rparr>)
                             (filter (\<lambda>u. tenantId req \<noteq> None \<and> u_tenant_id u = tenantId req)
                                (users d)))
           \<and> sorted (rev (map v_created_at vs)))
         \<and> d' = d"
    using listed_users by blast
  from a b c show ?thesis by blast
qed

text \<open>
  The amended C8 at the seeded tenant's administrator naming the other tenant in the
  path, and naming their own: the first is refused on both routes, the second creates
  the user in the tenant of the claims.
\<close>

theorem path_tenant_must_match_claim_witness:
  "route_post_tenant_users env0
      (as_admin\<lparr>params_tenantId := acme, b_password := Val ''secret''\<rparr>) seed
     = (Sent (json 403 False ''Cross-tenant access denied''), seed)
   \<and> route_get_tenant_users env0
      (as_admin\<lparr>params_tenantId := acme, b_password := Val ''secret''\<rparr>) seed
     = (Sent (json 403 False ''Forbidden''), seed)
   \<and> map (\<lambda>u. (u_id u, u_tenant_id u)) (users (snd (route_post_tenant_users env0
      (as_admin\<lparr>params_tenantId := demo, b_password := Val ''secret''\<rparr>) seed)))
     = map (\<lambda>u. (u_id u, u_tenant_id u)) (users seed) @ [(uuid env0, Some demo)]"
proof -
  let ?q = "as_admin\<lparr>params_tenantId := acme, b_password := Val ''secret''\<rparr>"
  let ?p = "as_admin\<lparr>params_tenantId := demo, b_password := Val ''secret''\<rparr>"
  have q: "user_role ?q \<noteq> ''super_admin'' \<and> Some (params_tenantId ?q) \<noteq> tenantId ?q"
    by (simp add: as_admin_def request_of_def demo_def acme_def)
  have q': "user_role ?q = ''tenant_admin''" "\<not> falsy (tenantId ?q)"
    by (simp_all add: as_admin_def request_of_def demo_def)
  have a: "route_post_tenant_users env0 ?q seed
             = (Sent (json 403 False ''Cross-tenant access denied''), seed)
         \<and> route_get_tenant_users env0 ?q seed = (Sent (json 403 False ''Forbidden''), seed)"
    using path_tenant_must_match_claim [of ?q env0 seed] q q' by simp
  have p: "route_post_tenant_users env0 ?p seed =
             (Sent (json 201 True ''User created''),
              audit ?p ''CREATE_USER'' ''user'' (uuid env0) (insert_user env0 (tenantId ?p) ?p seed))"
    by (simp add: route_post_tenant_users_eq post_tenant_users_def tenant_by_id_def
        users_of_tenant_def sample_defs)
  have t: "tenantId ?p = Some demo" by (simp add: as_admin_def request_of_def)
  from path_tenant_must_match_claim [of ?p env0 seed] p t
  have "map (\<lambda>u. (u_id u, u_tenant_id u)) (users (snd (route_post_tenant_users env0 ?p seed)))
     = map (\<lambda>u. (u_id u, u_tenant_id u)) (users seed) @ [(uuid env0, Some demo)]"
    by simp
  with a show ?thesis by simp
qed

subsection \<open>Updating a user\<close>

text \<open>
  C2 (a member may change their own full name only; role and active state need the
  tenant administrator). The route is served by the handler registered first, which
  checks only that the actor is the tenant administrator or the target, and then writes
  every field the body supplies. The member of the seeded tenant sends
  \<^verbatim>\<open>PUT /users/<own id>\<close> with \<^verbatim>\<open>{"role": "tenant_admin"}\<close>: the answer is 200 and
  the member's row now holds the role \<open>tenant_admin\<close>. The handler registered second
  (API 10) answers the same request with 403 \<open>Not authorized\<close>, but it is never reached.
\<close>

theorem member_promotes_self:
  "fst (route_put_users env0
          (as_member\<lparr>params_userId := member_id, b_role := Val ''tenant_admin''\<rparr>) seed)
     = Sent (json 200 True ''User updated'')
   \<and> map u_role (filter (\<lambda>u. u_id u = member_id)
         (users (snd (route_put_users env0
            (as_member\<lparr>params_userId := member_id, b_role := Val ''tenant_admin''\<rparr>) seed))))
     = [Some ''tenant_admin'']
   \<and> map u_role (filter (\<lambda>u. u_id u = member_id) (users seed)) = [Some ''user'']
   \<and> put_users_api10 env0
        (as_member\<lparr>params_userId := member_id, b_role := Val ''tenant_admin''\<rparr>) seed
     = (Sent (json 403 False ''Not authorized''), seed)"
  by (simp add: route_eqs handler_defs query_defs sample_defs)

subsection \<open>Resources of another tenant\<close>

text \<open>
  C1, as stated, fails in two ways. The handler that serves \<^verbatim>\<open>PUT /users/:userId\<close>
  never compares tenants: the administrator of the seeded tenant renames a user of the
  other tenant and is answered 200. And where the tenant is compared, in the project
  routes, it is compared inside the lookup, so a project of another tenant is answered
  404 \<open>Project not found\<close>, not a 403 denial.
\<close>

theorem admin_updates_user_of_other_tenant:
  "fst (route_put_users env0
          (as_admin\<lparr>params_userId := acme_admin_id, b_fullName := Val ''Renamed''\<rparr>) seed)
     = Sent (json 200 True ''User updated'')
   \<and> map (\<lambda>u. (u_tenant_id u, u_full_name u)) (filter (\<lambda>u. u_id u = acme_admin_id)
         (users (snd (route_put_users env0
            (as_admin\<lparr>params_userId := acme_admin_id, b_fullName := Val ''Renamed''\<rparr>) seed))))
     = [(Some acme, Some ''Renamed'')]
   \<and> map (\<lambda>u. (u_tenant_id u, u_full_name u)) (filter (\<lambda>u. u_id u = acme_admin_id) (users seed))
     = [(Some acme, Some ''Acme Admin'')]
   \<and> tenantId as_admin = Some demo \<and> demo \<noteq> acme
   \<and> route_put_project env0 (as_admin\<lparr>params_projectId := acme_project_id\<rparr>) seed
     = (Sent (json 404 False ''Project not found''), seed)
   \<and> map p_tenant_id (filter (\<lambda>p. p_id p = acme_project_id) (projects seed)) = [Some acme]"
  by (simp add: route_eqs handler_defs query_defs sample_defs)

lemma no_project_in_other_tenant:
  assumes "distinct (map p_id ps)" and "r \<in> set ps" and "p_tenant_id r \<noteq> Some T"
  shows "filter (\<lambda>p. p_id p = p_id r \<and> sql_eq (p_tenant_id p) (Some T)) ps = []"
proof -
  have "inj_on p_id (set ps)" using assms(1) by (simp add: distinct_map)
  then have "p = r" if "p \<in> set ps" and "p_id p = p_id r" for p
    using that assms(2) by (auto dest: inj_onD)
  with assms(3) show ?thesis by (auto simp: filter_empty_conv)
qed

lemma delete_users_keeps_other_tenants:
  assumes "tenantId req = Some T"
  shows "filter (\<lambda>u. u_tenant_id u \<noteq> Some T) (users (snd (delete_users e req d)))
           = filter (\<lambda>u. u_tenant_id u \<noteq> Some T) (users d)"
  using assms by (auto simp: delete_users_def audit_def auditLog_def intro: filter_cong)

text \<open>
  C1, amended: for an actor whose claims bind them to tenant \<open>T\<close>, updating or deleting
  a project that belongs to another tenant is answered 404 \<open>Project not found\<close>,
  whatever the actor's role and whoever created the project (the lookup by the tenant id
  of the claims comes before the role and ownership check), and the database is
  unchanged; and the user-deletion route removes no user of another tenant. Project ids
  are the table's primary key.
\<close>

theorem other_tenant_project_not_found:
  assumes "tenantId req = Some T" and "T \<noteq> []"
    and "distinct (map p_id (projects d))"
    and "r \<in> set (projects d)" and "p_id r = params_projectId req"
    and "p_tenant_id r \<noteq> Some T"
  shows "route_put_project e req d = (Sent (json 404 False ''Project not found''), d)
       \<and> route_delete_project e req d = (Sent (json 404 False ''Project not found''), d)
       \<and> filter (\<lambda>u. u_tenant_id u \<noteq> Some T) (users (snd (route_delete_users e req d)))
           = filter (\<lambda>u. u_tenant_id u \<noteq> Some T) (users d)"
proof -
  have none: "filter (\<lambda>p. p_id p = params_projectId req \<and> sql_eq (p_tenant_id p) (tenantId req))
                (projects d) = []"
    using no_project_in_other_tenant [OF assms(3,4,6)] assms(1,5) by simp
  have a: "route_put_project e req d = (Sent (json 404 False ''Project not found''), d)"
    using assms(1,2) none by (simp add: route_put_project_eq put_project_def)
  have b: "route_delete_project e req d = (Sent (json 404 False ''Project not found''), d)"
    using assms(1,2) none by (simp add: route_delete_project_eq delete_project_def)
  have c: "filter (\<lambda>u. u_tenant_id u \<noteq> Some T) (users (snd (route_delete_users e req d)))
           = filter (\<lambda>u. u_tenant_id u \<noteq> Some T) (users d)"
    using delete_users_keeps_other_tenants [OF assms(1)]
    by (simp add: route_delete_users_eq)
  from a b c show ?thesis by simp
qed

text \<open>
  The amended C1 at the member of the seeded tenant, who is neither an administrator nor
  the project's creator, asking for the other tenant's project and, on the user route,
  for the other tenant's administrator.
\<close>

theorem other_tenant_project_not_found_witness:
  "route_put_project env0
      (as_member\<lparr>params_projectId := acme_project_id, params_userId := acme_admin_id\<rparr>) seed
     = (Sent (json 404 False ''Project not found''), seed)
   \<and> route_delete_project env0
      (as_member\<lparr>params_projectId := acme_project_id, params_userId := acme_admin_id\<rparr>) seed
     = (Sent (json 404 False ''Project not found''), seed)
   \<and> map u_id (filter (\<lambda>u. u_tenant_id u \<noteq> Some demo) (users (snd (route_delete_users env0
        (as_member\<lparr>params_projectId := acme_project_id, params_userId := acme_admin_id\<rparr>) seed))))
     = [super_id, acme_admin_id]"
proof -
  let ?q = "as_member\<lparr>params_projectId := acme_project_id, params_userId := acme_admin_id\<rparr>"
  have h1: "tenantId ?q = Some demo" by (simp add: as_member_def request_of_def)
  have h2: "demo \<noteq> []" by (simp add: demo_def)
  have h3: "distinct (map p_id (projects seed))" by (simp add: seed_def)
  have h4: "acme_project \<in> set (projects seed)" by (simp add: seed_def)
  have h5: "p_id acme_project = params_projectId ?q" by (simp add: acme_project_def)
  have h6: "p_tenant_id acme_project \<noteq> Some demo"
    by (simp add: acme_project_def acme_def demo_def)
  have u: "map u_id (filter (\<lambda>u. u_tenant_id u \<noteq> Some demo) (users seed))
             = [super_id, acme_admin_id]"
    by (simp add: sample_defs)
  from other_tenant_project_not_found [OF h1 h2 h3 h4 h5 h6, of env0] u
  show ?thesis by simp
qed

subsection \<open>Deleting a user\<close>

text \<open>
  C7, as stated, fails for the roles other than the tenant administrator: their
  self-deletion is refused by the role check, which runs before the handler compares
  the ids, and the answer is \<open>Forbidden\<close>, not \<open>Cannot delete yourself\<close>. So it is for
  the member and for the super admin, on the route and in the handler registered second.
\<close>

theorem self_delete_reason_depends_on_role:
  "route_delete_users env0 (as_member\<lparr>params_userId := member_id\<rparr>) seed
     = (Sent (json 403 False ''Forbidden''), seed)
   \<and> delete_users_api11 env0 (as_member\<lparr>params_userId := member_id\<rparr>) seed
     = (Sent (json 403 False ''Forbidden''), seed)
   \<and> route_delete_users env0 (as_super\<lparr>params_userId := super_id\<rparr>) seed
     = (Sent (json 403 False ''Forbidden''), seed)
   \<and> delete_users_api11 env0 (as_super\<lparr>params_userId := super_id\<rparr>) seed
     = (Sent (json 403 False ''Forbidden''), seed)
   \<and> params_userId (as_member\<lparr>params_userId := member_id\<rparr>)
       = user_userId (as_member\<lparr>params_userId := member_id\<rparr>)
   \<and> params_userId (as_super\<lparr>params_userId := super_id\<rparr>)
       = user_userId (as_super\<lparr>params_userId := super_id\<rparr>)
   \<and> json 403 False ''Forbidden'' \<noteq> json 403 False ''Cannot delete yourself''"
  by (simp add: route_delete_users_eq delete_users_api11_def json_def sample_defs)

text \<open>
  C7, amended: a request to delete the actor's own user is always answered 403 and
  changes nothing in the database. The answer is \<open>Cannot delete yourself\<close> when the
  actor is a tenant administrator bound to a tenant; an actor of any other role is
  refused by the role check (\<open>Forbidden\<close>), and a tenant administrator without a tenant
  id by the tenant guard. The handler registered first answers \<open>Cannot delete yourself\<close>
  to every self-deletion that reaches it, the one registered second after its own role
  check.
\<close>

theorem self_delete_denied:
  assumes "params_userId req = user_userId req"
  shows "route_delete_users e req d =
           (Sent (json 403 False
              (if user_role req \<noteq> ''tenant_admin'' then ''Forbidden''
               else if falsy (tenantId req) then ''Tenant access denied''
               else ''Cannot delete yourself'')), d)
         \<and> delete_users e req d = (Sent (json 403 False ''Cannot delete yourself''), d)
         \<and> delete_users_api11 e req d =
           (Sent (json 403 False
              (if user_role req \<noteq> ''tenant_admin'' then ''Forbidden''
               else ''Cannot delete yourself'')), d)"
  using assms by (simp add: route_delete_users_eq delete_users_def delete_users_api11_def)

text \<open>The amended C7 at the seeded tenant's administrator deleting themself.\<close>

theorem self_delete_denied_witness:
  "route_delete_users env0 (as_admin\<lparr>params_userId := admin_id\<rparr>) seed =
     (Sent (json 403 False ''Cannot delete yourself''), seed)
   \<and> delete_users_api11 env0 (as_admin\<lparr>params_userId := admin_id\<rparr>) seed =
     (Sent (json 403 False ''Cannot delete yourself''), seed)"
proof -
  let ?q = "as_admin\<lparr>params_userId := admin_id\<rparr>"
  have h: "params_userId ?q = user_userId ?q" by (simp add: as_admin_def request_of_def)
  have r: "user_role ?q = ''tenant_admin''" "\<not> falsy (tenantId ?q)"
    by (simp_all add: as_admin_def request_of_def demo_def)
  from self_delete_denied [OF h, of env0 seed] r show ?thesis by simp
qed

text \<open>
  C9 (deleting a user that is not in the tenant is answered 404 and writes no audit
  entry). The handler that serves the route runs the DELETE and then, without looking
  at how many rows it removed, writes the audit entry and answers 200. The seeded
  tenant's administrator sends \<^verbatim>\<open>DELETE /users/<id of no user>\<close>: the answer is 200
  \<open>User deleted\<close> and the audit log gains a \<open>DELETE_USER\<close> entry. The handler registered
  second (API 11) looks the user up first and answers 404.
\<close>

theorem delete_absent_user_reports_success:
  "route_delete_users env0 (as_admin\<lparr>params_userId := absent_id\<rparr>) seed
     = (Sent (json 200 True ''User deleted''),
        seed\<lparr>audit_logs :=
                [\<lparr>a_tenantId = Some demo, a_userId = admin_id, a_action = ''DELETE_USER'',
                  a_entityType = ''user'', a_entityId = absent_id, a_ip = ''127.0.0.1''\<rparr>]\<rparr>)
   \<and> filter (\<lambda>u. u_id u = absent_id) (users seed) = []
   \<and> delete_users_api11 env0 (as_admin\<lparr>params_userId := absent_id\<rparr>) seed
     = (Sent (json 404 False ''User not found''), seed)"
  by (simp add: route_eqs handler_defs query_defs sample_defs)

subsection \<open>Creating a project\<close>

text \<open>
  C5 (only the tenant administrator creates projects). The route has no role check:
  the member of the seeded tenant sends \<^verbatim>\<open>POST /\<close> with \<^verbatim>\<open>{"name": "Plan"}\<close> and
  gets 201; the project is inserted with the member as its creator and the creation
  is audited.
\<close>

theorem member_creates_project:
  "route_post_project env0 (as_member\<lparr>b_name := Val ''Plan''\<rparr>) seed
     = (Sent \<lparr>status = 201, success = True, message = Some ''Project created'',
              data = NewId (uuid env0)\<rparr>,
        seed\<lparr>projects := projects seed @
                [\<lparr>p_id = uuid env0, p_tenant_id = Some demo, p_name = Some ''Plan'',
                  p_description = Some [], p_status = Some ''active'',
                  p_created_by = Some member_id\<rparr>],
             audit_logs :=
                [\<lparr>a_tenantId = Some demo, a_userId = member_id, a_action = ''CREATE_PROJECT'',
                  a_entityType = ''project'', a_entityId = uuid env0, a_ip = ''127.0.0.1''\<rparr>]\<rparr>)
   \<and> user_role (as_member\<lparr>b_name := Val ''Plan''\<rparr>) = ''user''"
  by (simp add: route_eqs handler_defs query_defs sample_defs)

text \<open>
  C6: when the tenant of the actor's claims already has as many projects as its
  \<open>max_projects\<close>, project creation is answered 403 \<open>Project limit reached\<close> and the
  database is left as it was: no project row and no audit entry is written. This holds
  for every actor bound to the tenant, its administrator included.
\<close>

theorem post_project_at_ceiling:
  assumes "tenantId req = Some T" and "T \<noteq> []"
    and "tenant_by_id d (Some T) = t # ts"
    and "length (projects_of_tenant d (Some T)) = t_max_projects t"
  shows "route_post_project e req d = (Sent (json 403 False ''Project limit reached''), d)"
  using assms by (simp add: route_post_project_eq post_project_def)

text \<open>C6 at the second tenant, which has one project and room for one.\<close>

theorem post_project_at_ceiling_witness:
  "route_post_project env0 as_acme_admin seed
     = (Sent (json 403 False ''Project limit reached''), seed)
   \<and> length (projects_of_tenant seed (Some acme)) = 1
   \<and> user_role as_acme_admin = ''tenant_admin''"
proof -
  have a: "tenantId as_acme_admin = Some acme" by (simp add: as_acme_admin_def request_of_def)
  have b: "acme \<noteq> []" by (simp add: acme_def)
  have c: "tenant_by_id seed (Some acme) = \<lparr>t_id = acme, t_max_users = 2, t_max_projects = 1\<rparr> # []"
    by (simp add: tenant_by_id_def sample_defs)
  have n: "length (projects_of_tenant seed (Some acme)) = 1"
    by (simp add: projects_of_tenant_def sample_defs)
  from n have d: "length (projects_of_tenant seed (Some acme))
      = t_max_projects \<lparr>t_id = acme, t_max_users = 2, t_max_projects = 1\<rparr>" by simp
  have r: "user_role as_acme_admin = ''tenant_admin''"
    by (simp add: as_acme_admin_def request_of_def)
  from post_project_at_ceiling [OF a b c d] n r show ?thesis by simp
qed

subsection \<open>Quotas\<close>

text \<open>
  A thread that runs its four steps with no other thread in between does what the
  handler does: the interleaving model and the handler agree on a request served alone.
\<close>

lemma post_project_threads:
  "run_schedule [0, 0, 0, 0] ([start e req], d) =
     ([\<lparr>th_env = e, th_req = req, th_pc = Finished (fst (post_project e req d))\<rparr>],
      snd (post_project e req d))"
  by (simp add: step_thread_def start_def post_project_def Let_def tenant_by_id_def
      insert_project_def audit_def auditLog_def split: list.splits)

text \<open>
  C3, as stated, fails: the handler reads the count, and inserts in a later statement.
  Two requests of the second tenant's administrator, for a tenant with no project and
  room for one, are interleaved so that both read the count before either inserts: both
  are answered 201 and the tenant ends with two projects.
\<close>

theorem interleaved_creation_exceeds_ceiling:
  "map th_pc (fst (run_schedule [0, 1, 0, 1, 0, 1, 0, 1]
      ([start env0 as_acme_admin, start env1 as_acme_admin], seed\<lparr>projects := []\<rparr>)))
     = [Finished (Sent \<lparr>status = 201, success = True, message = Some ''Project created'',
                        data = NewId (uuid env0)\<rparr>),
        Finished (Sent \<lparr>status = 201, success = True, message = Some ''Project created'',
                        data = NewId (uuid env1)\<rparr>)]
   \<and> length (projects_of_tenant (snd (run_schedule [0, 1, 0, 1, 0, 1, 0, 1]
      ([start env0 as_acme_admin, start env1 as_acme_admin], seed\<lparr>projects := []\<rparr>))) (Some acme)) = 2
   \<and> map t_max_projects (tenant_by_id (seed\<lparr>projects := []\<rparr>) (Some acme)) = [1]
   \<and> tenantGuard env0 as_acme_admin (seed\<lparr>projects := []\<rparr>) = (Next, seed\<lparr>projects := []\<rparr>)"
  by (simp add: step_thread_def start_def Let_def tenantGuard_def query_defs sample_defs)

lemma fst_serve_Cons:
  "fst (serve h (er # rs) d) =
     fst (h (fst er) (snd er) d) # fst (serve h rs (snd (h (fst er) (snd er) d)))"
  by (simp split: prod.splits)

lemma snd_serve_Cons:
  "snd (serve h (er # rs) d) = snd (serve h rs (snd (h (fst er) (snd er) d)))"
  by (simp split: prod.splits)

lemma route_post_project_bound:
  assumes "tenantId req = Some T" and "T \<noteq> []" and "tenant_by_id d (Some T) = t # ts"
  shows "route_post_project e req d =
     (if length (projects_of_tenant d (Some T)) < t_max_projects t
      then (Sent \<lparr>status = 201, success = True, message = Some ''Project created'',
              data = NewId (uuid e)\<rparr>,
            audit req ''CREATE_PROJECT'' ''project'' (uuid e) (insert_project e req d))
      else (Sent (json 403 False ''Project limit reached''), d))"
  using assms by (simp add: route_post_project_eq post_project_def)

lemma insert_project_count:
  "tenantId req = Some T \<Longrightarrow>
   length (projects_of_tenant (audit req a b c (insert_project e req d)) (Some T))
     = Suc (length (projects_of_tenant d (Some T)))"
  by (simp add: projects_of_tenant_def audit_def auditLog_def insert_project_def)

lemma insert_project_tenants:
  "tenant_by_id (audit req a b c (insert_project e req d)) x = tenant_by_id d x"
  by (simp add: tenant_by_id_def audit_def auditLog_def insert_project_def)

lemma serve_post_project:
  assumes "T \<noteq> []"
  shows "tenant_by_id d (Some T) = t # ts \<Longrightarrow> \<forall>er\<in>set rs. tenantId (snd er) = Some T \<Longrightarrow>
     length (fst (serve route_post_project rs d)) = length rs
   \<and> length (filter created (fst (serve route_post_project rs d)))
       = min (length rs) (t_max_projects t - length (projects_of_tenant d (Some T)))
   \<and> (\<forall>out\<in>set (fst (serve route_post_project rs d)).
         \<not> created out \<longrightarrow> out = Sent (json 403 False ''Project limit reached''))
   \<and> length (projects_of_tenant (snd (serve route_post_project rs d)) (Some T))
       = length (projects_of_tenant d (Some T))
         + min (length rs) (t_max_projects t - length (projects_of_tenant d (Some T)))"
proof (induction rs arbitrary: d)
  case Nil
  then show ?case by simp
next
  case (Cons er rs)
  have tid: "tenantId (snd er) = Some T" using Cons.prems(2) by simp
  have rest: "\<forall>er\<in>set rs. tenantId (snd er) = Some T" using Cons.prems(2) by simp
  note step = route_post_project_bound [OF tid assms Cons.prems(1), of "fst er"]
  show ?case
  proof (cases "length (projects_of_tenant d (Some T)) < t_max_projects t")
    case True
    let ?d1 = "audit (snd er) ''CREATE_PROJECT'' ''project'' (uuid (fst er))
                 (insert_project (fst er) (snd er) d)"
    have t1: "tenant_by_id ?d1 (Some T) = t # ts"
      using Cons.prems(1) by (simp add: insert_project_tenants)
    have c1: "length (projects_of_tenant ?d1 (Some T)) = Suc (length (projects_of_tenant d (Some T)))"
      using tid by (rule insert_project_count)
    have room: "t_max_projects t - length (projects_of_tenant d (Some T))
                  = Suc (t_max_projects t - Suc (length (projects_of_tenant d (Some T))))"
      using True by simp
    from Cons.IH [OF t1 rest] show ?thesis
      by (simp only: fst_serve_Cons snd_serve_Cons step True if_True fst_conv snd_conv c1 room)
         simp
  next
    case False
    have full: "t_max_projects t - length (projects_of_tenant d (Some T)) = 0"
      using False by simp
    from Cons.IH [OF Cons.prems(1) rest] show ?thesis
      by (simp only: fst_serve_Cons snd_serve_Cons step False if_False fst_conv snd_conv full)
         simp
  qed
qed

lemma route_post_tenant_users_bound:
  assumes "user_role req = ''tenant_admin''" and "tenantId req = Some T" and "T \<noteq> []"
    and "params_tenantId req = T" and "b_password req = Val pw"
    and "tenant_by_id d (Some T) = t # ts"
  shows "route_post_tenant_users e req d =
     (if length (users_of_tenant d (Some T)) < t_max_users t
      then (Sent (json 201 True ''User created''),
            audit req ''CREATE_USER'' ''user'' (uuid e) (insert_user e (Some T) req d))
      else (Sent (json 403 False ''Subscription limit reached''), d))"
  using assms by (simp add: route_post_tenant_users_eq post_tenant_users_def)

lemma insert_user_count:
  "length (users_of_tenant (audit req a b c (insert_user e (Some T) req d)) (Some T))
     = Suc (length (users_of_tenant d (Some T)))"
  by (simp add: users_of_tenant_def audit_def auditLog_def insert_user_def)

lemma insert_user_tenants:
  "tenant_by_id (audit req a b c (insert_user e x req d)) y = tenant_by_id d y"
  by (simp add: tenant_by_id_def audit_def auditLog_def insert_user_def)

lemma serve_post_tenant_users:
  assumes "T \<noteq> []"
  shows "tenant_by_id d (Some T) = t # ts \<Longrightarrow> \<forall>er\<in>set rs. creates_user_in T (snd er) \<Longrightarrow>
     length (fst (serve route_post_tenant_users rs d)) = length rs
   \<and> length (filter created (fst (serve route_post_tenant_users rs d)))
       = min (length rs) (t_max_users t - length (users_of_tenant d (Some T)))
   \<and> (\<forall>out\<in>set (fst (serve route_post_tenant_users rs d)).
         \<not> created out \<longrightarrow> out = Sent (json 403 False ''Subscription limit reached''))
   \<and> length (users_of_tenant (snd (serve route_post_tenant_users rs d)) (Some T))
       = length (users_of_tenant d (Some T))
         + min (length rs) (t_max_users t - length (users_of_tenant d (Some T)))"
proof (induction rs arbitrary: d)
  case Nil
  then show ?case by simp
next
  case (Cons er rs)
  have ok: "creates_user_in T (snd er)" using Cons.prems(2) by simp
  then obtain pw where pw: "b_password (snd er) = Val pw"
    by (cases "b_password (snd er)") (simp_all add: creates_user_in_def)
  have rest: "\<forall>er\<in>set rs. creates_user_in T (snd er)" using Cons.prems(2) by simp
  from ok have r: "user_role (snd er) = ''tenant_admin''" "tenantId (snd er) = Some T"
    "params_tenantId (snd er) = T" by (simp_all add: creates_user_in_def)
  note step = route_post_tenant_users_bound [OF r(1,2) assms r(3) pw Cons.prems(1), of "fst er"]
  show ?case
  proof (cases "length (users_of_tenant d (Some T)) < t_max_users t")
    case True
    let ?d1 = "audit (snd er) ''CREATE_USER'' ''user'' (uuid (fst er))
                 (insert_user (fst er) (Some T) (snd er) d)"
    have t1: "tenant_by_id ?d1 (Some T) = t # ts"
      using Cons.prems(1) by (simp add: insert_user_tenants)
    have c1: "length (users_of_tenant ?d1 (Some T)) = Suc (length (users_of_tenant d (Some T)))"
      by (rule insert_user_count)
    have room: "t_max_users t - length (users_of_tenant d (Some T))
                  = Suc (t_max_users t - Suc (length (users_of_tenant d (Some T))))"
      using True by simp
    from Cons.IH [OF t1 rest] show ?thesis
      by (simp only: fst_serve_Cons snd_serve_Cons step True if_True fst_conv snd_conv c1 room)
         simp
  next
    case False
    have full: "t_max_users t - length (users_of_tenant d (Some T)) = 0"
      using False by simp
    from Cons.IH [OF Cons.prems(1) rest] show ?thesis
      by (simp only: fst_serve_Cons snd_serve_Cons step False if_False fst_conv snd_conv full)
         simp
  qed
qed

text \<open>
  C3, amended: when the creation requests for a tenant are served one after another,
  each to completion, a tenant that holds \<open>c\<close> projects under a ceiling \<open>K\<close> sees
  exactly \<open>min N (K - c)\<close> of \<open>N\<close> project creations answered 201 and every other one
  answered 403 \<open>Project limit reached\<close>, and ends with \<open>c + min N (K - c)\<close> projects:
  from an empty tenant and \<open>K < N\<close>, exactly \<open>K\<close> succeed and the count stops at \<open>K\<close>.
  The same holds for user creations that reach the quota check, with \<open>max_users\<close> and
  403 \<open>Subscription limit reached\<close>.
\<close>

theorem sequential_creation_stops_at_ceiling:
  assumes "T \<noteq> []" and "tenant_by_id d (Some T) = t # ts"
    and "\<forall>er\<in>set ps. tenantId (snd er) = Some T"
    and "\<forall>er\<in>set us. creates_user_in T (snd er)"
  shows "length (fst (serve route_post_project ps d)) = length ps
   \<and> length (filter created (fst (serve route_post_project ps d)))
       = min (length ps) (t_max_projects t - length (projects_of_tenant d (Some T)))
   \<and> (\<forall>out\<in>set (fst (serve route_post_project ps d)).
         \<not> created out \<longrightarrow> out = Sent (json 403 False ''Project limit reached''))
   \<and> length (projects_of_tenant (snd (serve route_post_project ps d)) (Some T))
       = length (projects_of_tenant d (Some T))
         + min (length ps) (t_max_projects t - length (projects_of_tenant d (Some T)))
   \<and> length (fst (serve route_post_tenant_users us d)) = length us
   \<and> length (filter created (fst (serve route_post_tenant_users us d)))
       = min (length us) (t_max_users t - length (users_of_tenant d (Some T)))
   \<and> (\<forall>out\<in>set (fst (serve route_post_tenant_users us d)).
         \<not> created out \<longrightarrow> out = Sent (json 403 False ''Subscription limit reached''))
   \<and> length (users_of_tenant (snd (serve route_post_tenant_users us d)) (Some T))
       = length (users_of_tenant d (Some T))
         + min (length us) (t_max_users t - length (users_of_tenant d (Some T)))"
  using serve_post_project [OF assms(1,2,3)] serve_post_tenant_users [OF assms(1,2,4)]
  by simp

text \<open>
  The amended C3 at the two requests of the interleaving above, served one after the
  other: one project is created and the tenant ends with one; and at two user creations
  for the second tenant, which has one user and room for two.
\<close>

theorem sequential_creation_stops_at_ceiling_witness:
  "length (filter created (fst (serve route_post_project
       [(env0, as_acme_admin), (env1, as_acme_admin)] (seed\<lparr>projects := []\<rparr>)))) = 1
   \<and> length (projects_of_tenant (snd (serve route_post_project
       [(env0, as_acme_admin), (env1, as_acme_admin)] (seed\<lparr>projects := []\<rparr>))) (Some acme)) = 1
   \<and> length (filter created (fst (serve route_post_tenant_users
       [(env0, as_acme_admin\<lparr>params_tenantId := acme, b_password := Val ''secret''\<rparr>),
        (env1, as_acme_admin\<lparr>params_tenantId := acme, b_password := Val ''secret''\<rparr>)]
       (seed\<lparr>projects := []\<rparr>)))) = 1
   \<and> length (users_of_tenant (snd (serve route_post_tenant_users
       [(env0, as_acme_admin\<lparr>params_tenantId := acme, b_password := Val ''secret''\<rparr>),
        (env1, as_acme_admin\<lparr>params_tenantId := acme, b_password := Val ''secret''\<rparr>)]
       (seed\<lparr>projects := []\<rparr>))) (Some acme)) = 2"
proof -
  let ?d = "seed\<lparr>projects := []\<rparr>"
  let ?u = "as_acme_admin\<lparr>params_tenantId := acme, b_password := Val ''secret''\<rparr>"
  let ?t = "\<lparr>t_id = acme, t_max_users = 2, t_max_projects = 1\<rparr>"
  have h1: "acme \<noteq> []" by (simp add: acme_def)
  have h2: "tenant_by_id ?d (Some acme) = ?t # []"
    by (simp add: tenant_by_id_def sample_defs)
  have h3: "\<forall>er\<in>set [(env0, as_acme_admin), (env1, as_acme_admin)]. tenantId (snd er) = Some acme"
    by (simp add: as_acme_admin_def request_of_def)
  have h4: "\<forall>er\<in>set [(env0, ?u), (env1, ?u)]. creates_user_in acme (snd er)"
    by (simp add: creates_user_in_def as_acme_admin_def request_of_def)
  have p: "length (projects_of_tenant ?d (Some acme)) = 0"
    by (simp add: projects_of_tenant_def)
  have u: "length (users_of_tenant ?d (Some acme)) = 1"
    by (simp add: users_of_tenant_def sample_defs)
  from sequential_creation_stops_at_ceiling [OF h1 h2 h3 h4] p u show ?thesis
    by simp
qed

end
